theory Spec2Isabelle
  imports Complex_Main "HOL-Library.AList"
begin

section \<open>Python values used by \<^verbatim>\<open>models/dqdetr/backbone.py\<close>\<close>

text \<open>
  Every exception the module raises, or that Python raises on its behalf, is a value.
  The string is the message (for \<open>UnboundLocalError\<close>, the name of the local variable
  read before assignment).
\<close>

datatype error =
    NotImplementedError string
  | AssertionError string
  | ValueError string
  | UnboundLocalError string
  | TypeError string
  | IndexError string
  | RuntimeError string

text \<open>
  \<open>str(i)\<close> of a Python integer, as \<open>"{}".format(i)\<close> and an f-string print it:
  decimal digits, most significant first, with a leading minus sign for a negative number.
  \<open>digit_char\<close> is only ever applied to a remainder modulo 10.
\<close>

definition digit_char :: "nat \<Rightarrow> char" where
  "digit_char d = ''0123456789'' ! d"

function str_nat :: "nat \<Rightarrow> string" where
  "str_nat n = (if n < 10 then [digit_char n] else str_nat (n div 10) @ [digit_char (n mod 10)])"
  by pat_completeness auto
termination
  by (relation "measure id") auto

declare str_nat.simps [simp del]

definition str_int :: "int \<Rightarrow> string" where
  "str_int i = (if i < 0 then CHR ''-'' # str_nat (nat (- i)) else str_nat (nat i))"

text \<open>\<open>sub in s\<close> on Python strings: \<open>sub\<close> occurs in \<open>s\<close> as a contiguous substring.\<close>

fun str_contains :: "string \<Rightarrow> string \<Rightarrow> bool" where
  "str_contains sub [] = (sub = [])"
| "str_contains sub (c # s) = (take (length sub) (c # s) = sub \<or> str_contains sub s)"

section \<open>Tensors, at the level of shape and element type\<close>

text \<open>
  The module never looks at the numbers inside a feature map or a mask: the encoders are
  black boxes, and the mask is only reindexed, cast and resampled. A tensor is therefore
  kept as its shape and its element type, and each torch operation the module calls is
  given by what it does to those two, with the errors torch raises on the shapes it refuses.
\<close>

datatype dtype = torch_bool | torch_float16 | torch_bfloat16 | torch_float32 | torch_float64 | torch_int64

record tensor =
  shape :: "nat list"
  dtype :: dtype

text \<open>\<open>t.to(d)\<close>, and \<open>t.float()\<close> which is \<open>t.to(torch.float32)\<close>.\<close>

definition to_dtype :: "tensor \<Rightarrow> dtype \<Rightarrow> tensor" where
  "to_dtype t d = t\<lparr>dtype := d\<rparr>"

definition float :: "tensor \<Rightarrow> tensor" where
  "float t = to_dtype t torch_float32"

text \<open>\<open>t[None]\<close> adds a leading axis of length 1.\<close>

definition index_None :: "tensor \<Rightarrow> tensor" where
  "index_None t = t\<lparr>shape := 1 # shape t\<rparr>"

text \<open>\<open>t[0]\<close> selects along the first axis; it raises on a scalar and on an empty axis.\<close>

definition index_0 :: "tensor \<Rightarrow> error + tensor" where
  "index_0 t =
     (case shape t of
        [] \<Rightarrow> Inl (IndexError ''invalid index of a 0-dim tensor'')
      | n # rest \<Rightarrow>
          if n = 0 then Inl (IndexError ''index 0 is out of bounds for dimension 0 with size 0'')
          else Inr (t\<lparr>shape := rest\<rparr>))"

text \<open>\<open>t.shape[-2:]\<close>: the last two axes, or all of them when there are fewer.\<close>

definition shape_last2 :: "tensor \<Rightarrow> nat list" where
  "shape_last2 t = drop (length (shape t) - 2) (shape t)"

text \<open>
  \<open>torch.nn.functional.interpolate(input, size=size, mode="nearest")\<close> (nearest is also
  the default mode): the input is (N, C, spatial...), with one to three spatial axes, and
  \<open>size\<close> (here \<open>out_size\<close>) gives the new length of each spatial axis. The output keeps the
  first two axes and the element type. Torch raises when \<open>size\<close> has the wrong number of entries, when
  the input is not 3-D, 4-D or 5-D, and when a spatial length on either side is zero.
\<close>

definition interpolate :: "tensor \<Rightarrow> nat list \<Rightarrow> error + tensor" where
  "interpolate input out_size =
     (if int (length out_size) \<noteq> int (length (shape input)) - 2 then
        Inl (ValueError ''Input and output must have the same number of spatial dimensions'')
      else if length (shape input) \<notin> {3, 4, 5} then
        Inl (NotImplementedError ''Input Error: Only 3D, 4D and 5D input Tensors supported'')
      else if 0 \<in> set (drop 2 (shape input)) \<or> 0 \<in> set out_size then
        Inl (RuntimeError ''Input and output sizes should be greater than 0'')
      else Inr (input\<lparr>shape := take 2 (shape input) @ out_size\<rparr>))"

text \<open>
  Modelled from the spec: \<open>util.misc.NestedTensor\<close> is not among the sources. It is the
  spec's ImageBatch and FeatureMap: a dense tensor travelling with a validity mask, which
  may be absent (\<open>None\<close>).
\<close>

record NestedTensor =
  tensors :: tensor
  mask :: "tensor option"

section \<open>Encoders and torchvision's \<open>IntermediateLayerGetter\<close>\<close>

text \<open>
  An \<open>nn.Module\<close> as the wrappers see it: its direct children in registration order, each
  a map on tensors, and its named parameters with their \<open>requires_grad\<close> flags.
\<close>

record nn_Module =
  named_children :: "(string \<times> (tensor \<Rightarrow> tensor)) list"
  named_parameters :: "(string \<times> bool) list"

text \<open>
  \<open>IntermediateLayerGetter(model, return_layers)\<close> checks that every key of
  \<open>return_layers\<close> names a child, then keeps the children in order up to and including
  the one at which the last key has been met. Its forward runs the kept children in
  sequence and records the output of each child named in \<open>return_layers\<close> under the new
  name, in an ordered dictionary.
\<close>

record IntermediateLayerGetter =
  layers :: "(string \<times> (tensor \<Rightarrow> tensor)) list"
  return_layers :: "(string \<times> string) list"

fun kept_layers :: "(string \<times> 'm) list \<Rightarrow> string list \<Rightarrow> (string \<times> 'm) list" where
  "kept_layers [] pending = []"
| "kept_layers ((name, m) # rest) pending =
     (name, m) # (if removeAll name pending = [] then [] else kept_layers rest (removeAll name pending))"

definition IntermediateLayerGetter_init ::
  "nn_Module \<Rightarrow> (string \<times> string) list \<Rightarrow> error + IntermediateLayerGetter" where
  "IntermediateLayerGetter_init model rl =
     (if \<not> list_all (\<lambda>k. k \<in> set (map fst (named_children model))) (map fst rl) then
        Inl (ValueError ''return_layers are not present in model'')
      else Inr \<lparr>layers = kept_layers (named_children model) (map fst rl), return_layers = rl\<rparr>)"

fun run_layers ::
  "(string \<times> (tensor \<Rightarrow> tensor)) list \<Rightarrow> (string \<times> string) list \<Rightarrow> tensor \<Rightarrow>
   (string \<times> tensor) list \<Rightarrow> (string \<times> tensor) list" where
  "run_layers [] rl x out = out"
| "run_layers ((name, m) # rest) rl x out =
     run_layers rest rl (m x)
       (case map_of rl name of
          Some out_name \<Rightarrow> AList.update out_name (m x) out
        | None \<Rightarrow> out)"

definition IntermediateLayerGetter_forward ::
  "IntermediateLayerGetter \<Rightarrow> tensor \<Rightarrow> (string \<times> tensor) list" where
  "IntermediateLayerGetter_forward self x = run_layers (layers self) (return_layers self) x []"

section \<open>\<open>BackboneBase\<close>\<close>

record BackboneBase =
  body :: IntermediateLayerGetter
  num_channels :: "nat list"

text \<open>
  Lines 77-79: the loop over \<open>backbone.named_parameters()\<close>. Python reads the condition as
  \<open>not train_backbone or ('layer2' not in name and 'layer3' not in name and 'layer4' not in name)\<close>;
  \<open>requires_grad_(False)\<close> clears the flag, and a parameter the condition skips keeps
  the flag it had.
\<close>

definition freeze_parameters :: "bool \<Rightarrow> (string \<times> bool) list \<Rightarrow> (string \<times> bool) list" where
  "freeze_parameters train_backbone ps =
     map (\<lambda>(name, requires_grad).
            if \<not> train_backbone \<or>
               (\<not> str_contains ''layer2'' name \<and> \<not> str_contains ''layer3'' name \<and>
                \<not> str_contains ''layer4'' name)
            then (name, False) else (name, requires_grad)) ps"

text \<open>
  Lines 81-83: \<open>return_layers\<close>, a dictionary from the tapped child's name
  \<open>layer{5 - len(return_interm_indices) + idx}\<close> to the output key \<open>{layer_index}\<close>.
\<close>

definition make_return_layers :: "int list \<Rightarrow> (string \<times> string) list" where
  "make_return_layers return_interm_indices =
     foldl (\<lambda>d (idx, layer_index).
              AList.update (''layer'' @ str_int (5 - int (length return_interm_indices) + int idx))
                (str_int layer_index) d)
       [] (enumerate 0 return_interm_indices)"

text \<open>
  The constructor. The first component is the encoder's parameter list after the freezing
  loop: the loop mutates the encoder in place, also when the layer getter then refuses the
  stage names.
\<close>

definition BackboneBase_init ::
  "nn_Module \<Rightarrow> bool \<Rightarrow> nat list \<Rightarrow> int list \<Rightarrow> (string \<times> bool) list \<times> (error + BackboneBase)" where
  "BackboneBase_init backbone train_backbone num_channels' return_interm_indices =
     (freeze_parameters train_backbone (named_parameters backbone),
      case IntermediateLayerGetter_init backbone (make_return_layers return_interm_indices) of
        Inl e \<Rightarrow> Inl e
      | Inr b \<Rightarrow> Inr \<lparr>body = b, num_channels = num_channels'\<rparr>)"

text \<open>
  Lines 95-104. The assertion on the mask sits inside the loop over the emitted features,
  before the mask is touched.
\<close>

fun BackboneBase_forward_loop ::
  "tensor option \<Rightarrow> (string \<times> tensor) list \<Rightarrow> (string \<times> NestedTensor) list \<Rightarrow>
   error + (string \<times> NestedTensor) list" where
  "BackboneBase_forward_loop m [] out = Inr out"
| "BackboneBase_forward_loop m ((name, x) # xs) out =
     (case m of
        None \<Rightarrow> Inl (AssertionError [])
      | Some mt \<Rightarrow>
          (case interpolate (float (index_None mt)) (shape_last2 x) of
             Inl e \<Rightarrow> Inl e
           | Inr r \<Rightarrow>
               (case index_0 (to_dtype r torch_bool) of
                  Inl e \<Rightarrow> Inl e
                | Inr mask' \<Rightarrow>
                    BackboneBase_forward_loop m xs
                      (AList.update name \<lparr>tensors = x, mask = Some mask'\<rparr> out))))"

definition BackboneBase_forward ::
  "BackboneBase \<Rightarrow> NestedTensor \<Rightarrow> error + (string \<times> NestedTensor) list" where
  "BackboneBase_forward self tensor_list =
     BackboneBase_forward_loop (mask tensor_list)
       (IntermediateLayerGetter_forward (body self) (tensors tensor_list)) []"

section \<open>\<open>Backbone\<close>: the residual-network wrapper\<close>

text \<open>
  Construction has effects the claims speak of: which builders were called, and in which
  order. Each constructor returns the calls it made next to its result.
\<close>

datatype event =
    called_build_position_encoding
  | called_torchvision_models string
  | called_SSLVisionTransformer

text \<open>
  Lines 115-129. \<open>models\<close> stands for \<open>getattr(torchvision.models, name)\<close>, called with
  \<open>replace_stride_with_dilation=[False, False, dilation]\<close>; it may raise. The slice
  \<open>num_channels_all[4-len(return_interm_indices):]\<close> is only reached after the assertion
  on the selection, where the length is 1, 3 or 4.
\<close>

definition Backbone_init ::
  "(string \<Rightarrow> bool list \<Rightarrow> error + nn_Module) \<Rightarrow> string \<Rightarrow> bool \<Rightarrow> bool \<Rightarrow> int list \<Rightarrow>
   event list \<times> (error + BackboneBase)" where
  "Backbone_init models name train_backbone dilation return_interm_indices =
     (if name \<in> set [''resnet18'', ''resnet34'', ''resnet50'', ''resnet101''] then
        (case models name [False, False, dilation] of
           Inl e \<Rightarrow> ([called_torchvision_models name], Inl e)
         | Inr backbone \<Rightarrow>
             ([called_torchvision_models name],
              if name \<in> set [''resnet18'', ''resnet34''] then
                Inl (AssertionError ''Only resnet50 and resnet101 are available.'')
              else if return_interm_indices \<notin> set [[0, 1, 2, 3], [1, 2, 3], [3]] then
                Inl (AssertionError [])
              else
                snd (BackboneBase_init backbone train_backbone
                       (drop (4 - length return_interm_indices) [256, 512, 1024, 2048])
                       return_interm_indices)))
      else ([], Inl (NotImplementedError (''Why you can get here with name '' @ name))))"

section \<open>\<open>VitBackboneAdapter\<close>\<close>

record VitBackboneAdapter =
  vit :: "tensor \<Rightarrow> tensor list"
  out_indices :: "int list"
  patch_size :: "nat \<times> nat"

text \<open>
  Lines 160-173. \<open>zip\<close> stops at the shorter of its two arguments. Unpacking
  \<open>_, C, H, W = feat.shape\<close> raises unless the feature is 4-D; \<open>mask[None]\<close> raises on
  \<open>None\<close>. Storing under a key that is already in the ordered dictionary replaces the
  value and keeps the key's place.
\<close>

fun VitBackboneAdapter_forward_loop ::
  "tensor option \<Rightarrow> (int \<times> tensor) list \<Rightarrow> (string \<times> NestedTensor) list \<Rightarrow>
   error + (string \<times> NestedTensor) list" where
  "VitBackboneAdapter_forward_loop mask' [] out = Inr out"
| "VitBackboneAdapter_forward_loop mask' ((idx, feat) # rest) out =
     (case shape feat of
        [_, C, H, W] \<Rightarrow>
          (case mask' of
             None \<Rightarrow> Inl (TypeError ''NoneType object is not subscriptable'')
           | Some mt \<Rightarrow>
               (case interpolate (float (index_None mt)) [H, W] of
                  Inl e \<Rightarrow> Inl e
                | Inr r \<Rightarrow>
                    (case index_0 r of
                       Inl e \<Rightarrow> Inl e
                     | Inr r0 \<Rightarrow>
                         VitBackboneAdapter_forward_loop mask' rest
                           (AList.update (''stage'' @ str_int idx)
                              \<lparr>tensors = feat, mask = Some (to_dtype r0 torch_bool)\<rparr> out))))
      | _ \<Rightarrow> Inl (ValueError ''wrong number of values to unpack (expected 4)''))"

definition VitBackboneAdapter_forward ::
  "VitBackboneAdapter \<Rightarrow> NestedTensor \<Rightarrow> error + (string \<times> NestedTensor) list" where
  "VitBackboneAdapter_forward self tensor_list =
     VitBackboneAdapter_forward_loop (mask tensor_list)
       (zip (out_indices self) (vit self (tensors tensor_list))) []"

section \<open>\<open>Joiner\<close>\<close>

text \<open>
  \<open>self[0]\<close> is one of the two wrappers, \<open>self[1]\<close> the position-encoding generator
  (\<open>position_encoding.py\<close> is not among the sources: the generator is any map from a
  feature map to a tensor, which may raise). \<open>Joiner_num_channels\<close> is the attribute that
  \<open>build_backbone\<close> attaches after construction.
\<close>

datatype backbone_module = Conv BackboneBase | Vit VitBackboneAdapter

fun backbone_forward ::
  "backbone_module \<Rightarrow> NestedTensor \<Rightarrow> error + (string \<times> NestedTensor) list" where
  "backbone_forward (Conv b) tensor_list = BackboneBase_forward b tensor_list"
| "backbone_forward (Vit v) tensor_list = VitBackboneAdapter_forward v tensor_list"

record Joiner =
  Joiner_backbone :: backbone_module
  Joiner_position_embedding :: "NestedTensor \<Rightarrow> error + tensor"
  Joiner_num_channels :: "nat list option"

text \<open>Lines 136-145: the loop over \<open>xs.items()\<close>, appending to \<open>out\<close> and \<open>pos\<close>.\<close>

fun Joiner_forward_loop ::
  "(NestedTensor \<Rightarrow> error + tensor) \<Rightarrow> (string \<times> NestedTensor) list \<Rightarrow>
   NestedTensor list \<Rightarrow> tensor list \<Rightarrow> error + (NestedTensor list \<times> tensor list)" where
  "Joiner_forward_loop pe [] out pos = Inr (out, pos)"
| "Joiner_forward_loop pe ((name, x) # xs) out pos =
     (case pe x of
        Inl e \<Rightarrow> Inl e
      | Inr p \<Rightarrow> Joiner_forward_loop pe xs (out @ [x]) (pos @ [to_dtype p (dtype (tensors x))]))"

definition Joiner_forward ::
  "Joiner \<Rightarrow> NestedTensor \<Rightarrow> error + (NestedTensor list \<times> tensor list)" where
  "Joiner_forward self tensor_list =
     (case backbone_forward (Joiner_backbone self) tensor_list of
        Inl e \<Rightarrow> Inl e
      | Inr xs \<Rightarrow> Joiner_forward_loop (Joiner_position_embedding self) xs [] [])"

section \<open>\<open>build_backbone\<close>\<close>

text \<open>The fields of \<open>args\<close> that \<open>build_backbone\<close> reads.\<close>

record args =
  args_backbone :: string
  args_lr_backbone :: real
  args_dilation :: bool
  args_return_interm_indices :: "int list"
  args_backbone_freeze_keywords :: "string list"
  args_img_size :: nat
  args_patch_size :: nat
  args_embed_dim :: nat
  args_depth :: nat
  args_num_heads :: nat
  args_drop_path_rate :: real
  args_mlp_ratio :: real
  args_qkv_bias :: bool
  args_pretrained :: bool
  args_out_indices :: "int list"
  args_frozen_stages :: int

text \<open>
  The builders \<open>build_backbone\<close> calls and this file does not define:
  \<open>build_position_encoding\<close> (\<open>position_encoding.py\<close>), the torchvision model
  constructors, and \<open>SSLVisionTransformer\<close>. Each may raise.
\<close>

record externals =
  build_position_encoding :: "args \<Rightarrow> error + (NestedTensor \<Rightarrow> error + tensor)"
  torchvision_models :: "string \<Rightarrow> bool list \<Rightarrow> error + nn_Module"
  SSLVisionTransformer :: "args \<Rightarrow> error + (tensor \<Rightarrow> tensor list)"

text \<open>
  The locals of \<open>build_backbone\<close> that lines 239-242 read. \<open>position_embedding\<close> and
  \<open>num_channels\<close> are \<open>None\<close> while no assignment to them has run.
\<close>

record build_locals =
  local_backbone :: backbone_module
  local_position_embedding :: "(NestedTensor \<Rightarrow> error + tensor) option"
  local_num_channels :: "nat list option"

text \<open>
  Lines 190-208, the convolutional branch. It assigns \<open>position_embedding\<close>,
  \<open>backbone\<close> and \<open>bb_num_channels\<close>, and never \<open>num_channels\<close>. The inner test of
  the backbone name at line 199 repeats the outer one.
\<close>

definition build_backbone_conv :: "externals \<Rightarrow> args \<Rightarrow> event list \<times> (error + build_locals)" where
  "build_backbone_conv ext a =
     (case build_position_encoding ext a of
        Inl e \<Rightarrow> ([called_build_position_encoding], Inl e)
      | Inr position_embedding \<Rightarrow>
          (let train_backbone = args_lr_backbone a > 0 in
           if \<not> train_backbone then
             ([called_build_position_encoding], Inl (ValueError ''Please set lr_backbone > 0''))
           else if args_return_interm_indices a \<notin> set [[0, 1, 2, 3], [1, 2, 3], [3]] then
             ([called_build_position_encoding], Inl (AssertionError []))
           else if args_backbone a \<in> set [''resnet50'', ''resnet101''] then
             (case Backbone_init (torchvision_models ext) (args_backbone a) train_backbone
                     (args_dilation a) (args_return_interm_indices a) of
                (evs, Inl e) \<Rightarrow> (called_build_position_encoding # evs, Inl e)
              | (evs, Inr backbone) \<Rightarrow>
                  (let bb_num_channels = num_channels backbone in
                   if length bb_num_channels \<noteq> length (args_return_interm_indices a) then
                     (called_build_position_encoding # evs,
                      Inl (AssertionError ''len(bb_num_channels) != len(return_interm_indices)''))
                   else
                     (called_build_position_encoding # evs,
                      Inr \<lparr>local_backbone = Conv backbone,
                           local_position_embedding = Some position_embedding,
                           local_num_channels = None\<rparr>)))
           else
             ([called_build_position_encoding],
              Inl (NotImplementedError (''Unknown backbone '' @ args_backbone a)))))"

text \<open>
  Lines 212-234, the transformer branch. It assigns \<open>vit\<close>, \<open>backbone\<close> and
  \<open>num_channels\<close>, and never \<open>position_embedding\<close>.
\<close>

definition build_backbone_vit :: "externals \<Rightarrow> args \<Rightarrow> event list \<times> (error + build_locals)" where
  "build_backbone_vit ext a =
     (case SSLVisionTransformer ext a of
        Inl e \<Rightarrow> ([called_SSLVisionTransformer], Inl e)
      | Inr vit' \<Rightarrow>
          ([called_SSLVisionTransformer],
           Inr \<lparr>local_backbone =
                  Vit \<lparr>vit = vit', out_indices = args_out_indices a,
                       patch_size = (args_patch_size a, args_patch_size a)\<rparr>,
                local_position_embedding = None,
                local_num_channels = Some [320, 640, args_embed_dim a, args_embed_dim a]\<rparr>))"

text \<open>
  Lines 239-242, which both branches reach: \<open>Joiner(backbone, position_embedding)\<close>, then
  \<open>model.num_channels = num_channels\<close>. Reading a local that was never assigned raises
  \<open>UnboundLocalError\<close>. When \<open>num_channels\<close> is bound it is a list, so the final
  \<open>isinstance\<close> assertion passes.
\<close>

definition build_backbone_tail :: "build_locals \<Rightarrow> error + Joiner" where
  "build_backbone_tail l =
     (case local_position_embedding l of
        None \<Rightarrow> Inl (UnboundLocalError ''position_embedding'')
      | Some position_embedding \<Rightarrow>
          (case local_num_channels l of
             None \<Rightarrow> Inl (UnboundLocalError ''num_channels'')
           | Some num_channels' \<Rightarrow>
               Inr \<lparr>Joiner_backbone = local_backbone l,
                    Joiner_position_embedding = position_embedding,
                    Joiner_num_channels = Some num_channels'\<rparr>))"

text \<open>Lines 189-242: the dispatch on \<open>args.backbone\<close>, then the common tail.\<close>

definition build_backbone_branch :: "externals \<Rightarrow> args \<Rightarrow> event list \<times> (error + build_locals)" where
  "build_backbone_branch ext a =
     (if args_backbone a \<in> set [''resnet50'', ''resnet101''] then build_backbone_conv ext a
      else if args_backbone a \<in> set [''SSLVisionTransformer'', ''ssl_vit''] then build_backbone_vit ext a
      else ([], Inl (NotImplementedError (''Unknown backbone '' @ args_backbone a))))"

definition build_backbone :: "externals \<Rightarrow> args \<Rightarrow> event list \<times> (error + Joiner)" where
  "build_backbone ext a =
     (case build_backbone_branch ext a of
        (evs, Inl e) \<Rightarrow> (evs, Inl e)
      | (evs, Inr l) \<Rightarrow> (evs, build_backbone_tail l))"

section \<open>A shape-level residual network, for concrete runs\<close>

text \<open>
  What torchvision's \<open>resnet18\<close>, \<open>resnet34\<close>, \<open>resnet50\<close> and \<open>resnet101\<close> do to the shape of
  a 4-D input: the stem (\<open>conv1\<close>, \<open>maxpool\<close>) and each of \<open>layer2\<close>, \<open>layer3\<close>,
  \<open>layer4\<close> halve height and width, rounding up; \<open>layer4\<close> keeps them when it is
  dilated. The children are \<open>conv1, bn1, relu, maxpool, layer1, ..., layer4, avgpool, fc\<close>.
  The basic-block networks refuse dilation. The theorems below hold for any encoder; this
  one is what the concrete runs use.
\<close>

definition halve :: "nat \<Rightarrow> nat" where
  "halve h = (h - 1) div 2 + 1"

fun resnet_stage :: "nat \<Rightarrow> bool \<Rightarrow> tensor \<Rightarrow> tensor" where
  "resnet_stage c down t =
     (case shape t of
        [b, _, h, w] \<Rightarrow> t\<lparr>shape := [b, c, if down then halve h else h, if down then halve w else w]\<rparr>
      | _ \<Rightarrow> t)"

definition resnet_parameters :: "(string \<times> bool) list" where
  "resnet_parameters =
     [(''conv1.weight'', True), (''layer1.0.conv1.weight'', True), (''layer2.0.conv1.weight'', True),
      (''layer3.0.conv1.weight'', True), (''layer4.0.conv1.weight'', True),
      (''fc.weight'', True), (''fc.bias'', True)]"

definition resnet_module :: "nat \<Rightarrow> bool \<Rightarrow> nn_Module" where
  "resnet_module expansion dilation =
     \<lparr>named_children =
        [(''conv1'', resnet_stage 64 True), (''bn1'', id), (''relu'', id),
         (''maxpool'', resnet_stage 64 True),
         (''layer1'', resnet_stage (64 * expansion) False),
         (''layer2'', resnet_stage (128 * expansion) True),
         (''layer3'', resnet_stage (256 * expansion) True),
         (''layer4'', resnet_stage (512 * expansion) (\<not> dilation)),
         (''avgpool'', \<lambda>t. case shape t of [b, c, _, _] \<Rightarrow> t\<lparr>shape := [b, c, 1, 1]\<rparr> | _ \<Rightarrow> t),
         (''fc'', id)],
      named_parameters = resnet_parameters\<rparr>"

definition resnet_models :: "string \<Rightarrow> bool list \<Rightarrow> error + nn_Module" where
  "resnet_models name replace_stride_with_dilation =
     (if name \<in> set [''resnet18'', ''resnet34''] then
        (if True \<in> set replace_stride_with_dilation then
           Inl (NotImplementedError ''Dilation > 1 not supported in BasicBlock'')
         else Inr (resnet_module 1 False))
      else Inr (resnet_module 4 (last replace_stride_with_dilation)))"

section \<open>Concrete collaborators and inputs\<close>

text \<open>
  Modelled from the spec: the position-encoding generator (\<open>position_encoding.py\<close> is not
  among the sources) returns, for a feature map with its mask, an encoding of the mask's
  batch and spatial shape; the sine generator of this family has 256 channels and asserts
  that the mask is present.
\<close>

definition sine_position_embedding :: "NestedTensor \<Rightarrow> error + tensor" where
  "sine_position_embedding x =
     (case mask x of
        None \<Rightarrow> Inl (AssertionError [])
      | Some m \<Rightarrow>
          (case shape m of
             [b, h, w] \<Rightarrow> Inr \<lparr>shape = [b, 256, h, w], dtype = torch_float32\<rparr>
           | _ \<Rightarrow> Inl (RuntimeError ''mask is not 3-D'')))"

text \<open>
  Modelled from the spec: \<open>SSLVisionTransformer\<close> is not among the sources. Given an image
  batch it returns a fixed-length sequence of 4-D feature tensors; here four, with the
  channel widths \<open>build_backbone\<close> reports and height and width divided by 4, 8, 16 and 32.
\<close>

definition vit_features :: "nat \<Rightarrow> tensor \<Rightarrow> tensor list" where
  "vit_features embed_dim t =
     (case shape t of
        [b, _, h, w] \<Rightarrow>
          [t\<lparr>shape := [b, 320, h div 4, w div 4]\<rparr>, t\<lparr>shape := [b, 640, h div 8, w div 8]\<rparr>,
           t\<lparr>shape := [b, embed_dim, h div 16, w div 16]\<rparr>,
           t\<lparr>shape := [b, embed_dim, h div 32, w div 32]\<rparr>]
      | _ \<Rightarrow> [])"

definition demo_externals :: externals where
  "demo_externals =
     \<lparr>build_position_encoding = (\<lambda>a. Inr sine_position_embedding),
      torchvision_models = resnet_models,
      SSLVisionTransformer = (\<lambda>a. Inr (vit_features (args_embed_dim a)))\<rparr>"

definition demo_args :: "string \<Rightarrow> real \<Rightarrow> int list \<Rightarrow> args" where
  "demo_args name lr sel =
     \<lparr>args_backbone = name, args_lr_backbone = lr, args_dilation = False,
      args_return_interm_indices = sel, args_backbone_freeze_keywords = [],
      args_img_size = 224, args_patch_size = 16, args_embed_dim = 1280, args_depth = 32,
      args_num_heads = 20, args_drop_path_rate = 0, args_mlp_ratio = 4, args_qkv_bias = True,
      args_pretrained = False, args_out_indices = [9, 16, 22, 29], args_frozen_stages = 100\<rparr>"

text \<open>The spec's scenario: a batch of two 800 by 1200 images, with and without its mask.\<close>

definition image_batch :: NestedTensor where
  "image_batch =
     \<lparr>tensors = \<lparr>shape = [2, 3, 800, 1200], dtype = torch_float32\<rparr>,
      mask = Some \<lparr>shape = [2, 800, 1200], dtype = torch_bool\<rparr>\<rparr>"


section \<open>What the claims speak of\<close>

text \<open>
  A FeatureMap's mask fits its feature tensor: it is present and boolean, and after its
  batch axis its shape is the feature's spatial shape (\<open>shape[-2:]\<close>).
\<close>

definition mask_fits :: "NestedTensor \<Rightarrow> bool" where
  "mask_fits ft =
     (case mask ft of
        None \<Rightarrow> False
      | Some m \<Rightarrow>
          dtype m = torch_bool \<and>
          (case shape m of [] \<Rightarrow> False | b # spatial \<Rightarrow> spatial = shape_last2 (tensors ft)))"

text \<open>The key under which \<open>VitBackboneAdapter\<close> stores the feature of index \<open>idx\<close>.\<close>

definition stage_key :: "int \<Rightarrow> string" where
  "stage_key idx = ''stage'' @ str_int idx"

text \<open>The children of a torchvision residual network, in registration order.\<close>

definition resnet_child_names :: "string list" where
  "resnet_child_names =
     [''conv1'', ''bn1'', ''relu'', ''maxpool'', ''layer1'', ''layer2'', ''layer3'', ''layer4'',
      ''avgpool'', ''fc'']"

text \<open>The number a string of decimal digits stands for; it inverts \<open>str_nat\<close>.\<close>

definition digits_value :: "string \<Rightarrow> nat" where
  "digits_value s = foldl (\<lambda>a c. 10 * a + (of_char c - 48)) 0 s"

text \<open>
  Further inputs for concrete runs: an encoder that returns its input twice; the adapter
  and joiner over the four-stage transformer encoder; and the \<open>BackboneBase\<close> that
  \<open>BackboneBase_init\<close> builds over the shape-level residual network for the empty stage
  selection (the layer getter keeps the first child and taps nothing).
\<close>

definition two_copies :: "tensor \<Rightarrow> tensor list" where
  "two_copies t = [t, t]"

definition demo_vit_adapter :: VitBackboneAdapter where
  "demo_vit_adapter = \<lparr>vit = vit_features 1280, out_indices = [9, 16, 22, 29], patch_size = (16, 16)\<rparr>"

definition demo_vit_joiner :: Joiner where
  "demo_vit_joiner =
     \<lparr>Joiner_backbone = Vit demo_vit_adapter,
      Joiner_position_embedding = sine_position_embedding,
      Joiner_num_channels = Some [320, 640, 1280, 1280]\<rparr>"


section \<open>Reading results\<close>

text \<open>A result is the error \<open>e\<close> when it is an error and its error is \<open>e\<close>.\<close>

lemma sum_is_error: "isl r \<Longrightarrow> projl r = e \<Longrightarrow> r = Inl e"
  by (cases r) auto

lemma sum_is_value: "\<not> isl r \<Longrightarrow> projr r = v \<Longrightarrow> r = Inr v"
  by (cases r) auto

section \<open>\<open>build_backbone\<close>: what the two branches leave unassigned\<close>

lemma build_backbone_conv_locals:
  "build_backbone_conv ext a = (evs, Inr l) \<Longrightarrow> local_num_channels l = None"
  unfolding build_backbone_conv_def Let_def
  by (auto split: sum.splits prod.splits if_splits)

lemma build_backbone_vit_locals:
  "build_backbone_vit ext a = (evs, Inr l) \<Longrightarrow> local_position_embedding l = None"
  unfolding build_backbone_vit_def
  by (auto split: sum.splits)

lemma build_backbone_branch_locals:
  "build_backbone_branch ext a = (evs, Inr l) \<Longrightarrow>
     local_num_channels l = None \<or> local_position_embedding l = None"
  unfolding build_backbone_branch_def
  using build_backbone_conv_locals build_backbone_vit_locals
  by (auto split: if_splits)

text \<open>
  Claim C1 says that \<open>build_backbone\<close> returns a \<open>Joiner\<close> with the channel widths
  attached, for every recognized backbone whose configuration passes validation. The code
  does not: no call of \<open>build_backbone\<close> returns at all. The convolutional branch stores
  the widths in \<open>bb_num_channels\<close> and line 240 reads \<open>num_channels\<close>; the transformer
  branch never builds \<open>position_embedding\<close>, which line 239 reads. Whatever the
  collaborators and the configuration, the result is an error.
\<close>

theorem build_backbone_never_returns: "snd (build_backbone ext a) \<noteq> Inr j"
proof (cases "build_backbone_branch ext a")
  case (Pair evs r)
  show ?thesis
  proof (cases r)
    case (Inl e)
    with Pair show ?thesis by (simp add: build_backbone_def)
  next
    case (Inr l)
    with Pair build_backbone_branch_locals [of ext a evs l] show ?thesis
      by (auto simp: build_backbone_def build_backbone_tail_def split: option.splits)
  qed
qed

lemma build_backbone_resnet50_run:
  "snd (build_backbone demo_externals (demo_args ''resnet50'' (1 / 100000) [1, 2, 3]))
     = Inl (UnboundLocalError ''num_channels'')"
  by (rule sum_is_error; code_simp)

lemma build_backbone_ssl_vit_run:
  "snd (build_backbone demo_externals (demo_args ''ssl_vit'' (1 / 100000) [1, 2, 3]))
     = Inl (UnboundLocalError ''position_embedding'')"
  by (rule sum_is_error; code_simp)

theorem build_backbone_never_returns_witness:
  "snd (build_backbone demo_externals (demo_args ''resnet50'' (1 / 100000) [1, 2, 3]))
     = Inl (UnboundLocalError ''num_channels'') \<and>
   snd (build_backbone demo_externals (demo_args ''ssl_vit'' (1 / 100000) [1, 2, 3]))
     = Inl (UnboundLocalError ''position_embedding'') \<and>
   (\<forall>j. snd (build_backbone demo_externals (demo_args ''resnet50'' (1 / 100000) [1, 2, 3])) \<noteq> Inr j)"
  using build_backbone_never_returns [of demo_externals "demo_args ''resnet50'' (1 / 100000) [1, 2, 3]"]
    build_backbone_resnet50_run build_backbone_ssl_vit_run
  by simp

section \<open>The fine-tune rate is checked before any encoder is built\<close>

text \<open>
  Claim C6: for every configuration that selects a convolutional backbone with a
  fine-tune learning rate that is zero or negative, \<open>build_backbone\<close> raises a
  configuration error before any encoder is constructed. The only builder called is the
  position-encoding one, which runs first (line 190); when it returns, the error is the
  \<open>ValueError\<close> of line 193, and when it raises, its own error propagates.
\<close>

theorem build_backbone_nonpositive_lr:
  assumes "args_backbone a \<in> set [''resnet50'', ''resnet101'']"
    and "args_lr_backbone a \<le> 0"
  shows "fst (build_backbone ext a) = [called_build_position_encoding] \<and>
         snd (build_backbone ext a) =
           (case build_position_encoding ext a of
              Inl e \<Rightarrow> Inl e
            | Inr position_embedding \<Rightarrow> Inl (ValueError ''Please set lr_backbone > 0''))"
proof -
  from assms(1) have br: "build_backbone_branch ext a = build_backbone_conv ext a"
    unfolding build_backbone_branch_def by (simp only: if_True)
  from assms(2) have "build_backbone_conv ext a =
      ([called_build_position_encoding],
       case build_position_encoding ext a of
         Inl e \<Rightarrow> Inl e
       | Inr position_embedding \<Rightarrow> Inl (ValueError ''Please set lr_backbone > 0''))"
    unfolding build_backbone_conv_def Let_def by (simp split: sum.split)
  with br show ?thesis
    by (simp add: build_backbone_def split: sum.split)
qed

theorem build_backbone_nonpositive_lr_witness:
  "build_backbone demo_externals (demo_args ''resnet50'' 0 [1, 2, 3]) =
     ([called_build_position_encoding], Inl (ValueError ''Please set lr_backbone > 0'')) \<and>
   build_backbone demo_externals (demo_args ''resnet101'' (- 1) [3]) =
     ([called_build_position_encoding], Inl (ValueError ''Please set lr_backbone > 0''))"
proof -
  have 1: "args_backbone (demo_args ''resnet50'' 0 [1, 2, 3]) \<in> set [''resnet50'', ''resnet101'']"
    by (simp add: demo_args_def)
  have 2: "args_lr_backbone (demo_args ''resnet50'' 0 [1, 2, 3]) \<le> 0"
    by (simp add: demo_args_def)
  have 3: "args_backbone (demo_args ''resnet101'' (- 1) [3]) \<in> set [''resnet50'', ''resnet101'']"
    by (simp add: demo_args_def)
  have 4: "args_lr_backbone (demo_args ''resnet101'' (- 1) [3]) \<le> 0"
    by (simp add: demo_args_def)
  have 5: "build_position_encoding demo_externals x = Inr sine_position_embedding" for x
    by (simp add: demo_externals_def)
  show ?thesis
    using build_backbone_nonpositive_lr [OF 1 2, of demo_externals]
      build_backbone_nonpositive_lr [OF 3 4, of demo_externals] 5
    by (simp add: prod_eq_iff)
qed

section \<open>Residual-network depths\<close>

text \<open>
  Claim C7 says that every depth name other than \<open>resnet50\<close> and \<open>resnet101\<close> fails
  with a NotSupported error and that no encoder is produced. For \<open>resnet18\<close> and
  \<open>resnet34\<close> the code does otherwise: line 115 lets them through, line 116 builds the
  torchvision encoder, and the assertion of line 125 then stops the construction.
\<close>

theorem Backbone_init_resnet18_counterexample:
  "Backbone_init resnet_models ''resnet18'' True False [3] =
     ([called_torchvision_models ''resnet18''],
      Inl (AssertionError ''Only resnet50 and resnet101 are available.''))"
  by (simp add: Backbone_init_def resnet_models_def)

text \<open>
  Claim C7, amended: instantiating the convolutional backbone with a name other than
  \<open>resnet50\<close> and \<open>resnet101\<close> never yields a \<open>Backbone\<close>. A name outside
  \<open>resnet18, resnet34, resnet50, resnet101\<close> fails with \<open>NotImplementedError\<close> before any
  encoder is built. For \<open>resnet18\<close> and \<open>resnet34\<close> the torchvision constructor is called
  first; the construction then fails with the \<open>AssertionError\<close> "Only resnet50 and
  resnet101 are available.", or with the constructor's own error when that raises.
\<close>

theorem Backbone_init_unsupported_name:
  assumes "name \<notin> set [''resnet50'', ''resnet101'']"
  shows "Backbone_init models name tb dil sel =
     (if name \<in> set [''resnet18'', ''resnet34''] then
        ([called_torchvision_models name],
         case models name [False, False, dil] of
           Inl e \<Rightarrow> Inl e
         | Inr m \<Rightarrow> Inl (AssertionError ''Only resnet50 and resnet101 are available.''))
      else ([], Inl (NotImplementedError (''Why you can get here with name '' @ name)))) \<and>
    isl (snd (Backbone_init models name tb dil sel))"
  using assms unfolding Backbone_init_def
  by (auto split: sum.splits)

theorem Backbone_init_unsupported_name_witness:
  "Backbone_init resnet_models ''resnet34'' True False [3] =
     ([called_torchvision_models ''resnet34''],
      Inl (AssertionError ''Only resnet50 and resnet101 are available.'')) \<and>
   Backbone_init resnet_models ''resnet152'' True False [3] =
     ([], Inl (NotImplementedError ''Why you can get here with name resnet152''))"
proof -
  have 1: "''resnet34'' \<notin> set [''resnet50'', ''resnet101'']" by simp
  have 2: "''resnet152'' \<notin> set [''resnet50'', ''resnet101'']" by simp
  show ?thesis
    using Backbone_init_unsupported_name [OF 1, of resnet_models True False "[3]"]
      Backbone_init_unsupported_name [OF 2, of resnet_models True False "[3]"]
    by (simp add: resnet_models_def)
qed

section \<open>The freezing policy\<close>

text \<open>
  Claim C8: at \<open>BackboneBase\<close> construction, gradient computation is disabled for a
  parameter exactly when the trainable flag is false or its name contains none of
  \<open>layer2\<close>, \<open>layer3\<close>, \<open>layer4\<close>. Equivalently, a parameter is trainable afterwards
  only if it was before, the flag is true and its name contains one of those stage names;
  so the stem and the earliest stage, whose names contain none of them, end up frozen.
\<close>

theorem BackboneBase_init_freezes:
  "fst (BackboneBase_init backbone train_backbone nc sel) =
     map (\<lambda>(name, requires_grad).
            (name, requires_grad \<and> train_backbone \<and>
                   (str_contains ''layer2'' name \<or> str_contains ''layer3'' name \<or>
                    str_contains ''layer4'' name)))
       (named_parameters backbone) \<and>
   (\<forall>name g. (name, g) \<in> set (fst (BackboneBase_init backbone train_backbone nc sel)) \<and>
       (\<not> train_backbone \<or>
        \<not> (str_contains ''layer2'' name \<or> str_contains ''layer3'' name \<or> str_contains ''layer4'' name))
       \<longrightarrow> \<not> g)"
  by (auto simp: BackboneBase_init_def freeze_parameters_def split: if_splits)

lemma resnet_freeze_run:
  "fst (BackboneBase_init (resnet_module 4 False) True [512, 1024, 2048] [1, 2, 3]) =
     [(''conv1.weight'', False), (''layer1.0.conv1.weight'', False),
      (''layer2.0.conv1.weight'', True), (''layer3.0.conv1.weight'', True),
      (''layer4.0.conv1.weight'', True), (''fc.weight'', False), (''fc.bias'', False)]"
  "fst (BackboneBase_init (resnet_module 4 False) False [512, 1024, 2048] [1, 2, 3]) =
     [(''conv1.weight'', False), (''layer1.0.conv1.weight'', False),
      (''layer2.0.conv1.weight'', False), (''layer3.0.conv1.weight'', False),
      (''layer4.0.conv1.weight'', False), (''fc.weight'', False), (''fc.bias'', False)]"
  by code_simp+

theorem BackboneBase_init_freezes_witness:
  "fst (BackboneBase_init (resnet_module 4 False) True [512, 1024, 2048] [1, 2, 3]) =
     [(''conv1.weight'', False), (''layer1.0.conv1.weight'', False),
      (''layer2.0.conv1.weight'', True), (''layer3.0.conv1.weight'', True),
      (''layer4.0.conv1.weight'', True), (''fc.weight'', False), (''fc.bias'', False)] \<and>
   fst (BackboneBase_init (resnet_module 4 False) False [512, 1024, 2048] [1, 2, 3]) =
     [(''conv1.weight'', False), (''layer1.0.conv1.weight'', False),
      (''layer2.0.conv1.weight'', False), (''layer3.0.conv1.weight'', False),
      (''layer4.0.conv1.weight'', False), (''fc.weight'', False), (''fc.bias'', False)] \<and>
   fst (BackboneBase_init (resnet_module 4 False) True [512, 1024, 2048] [1, 2, 3]) =
     map (\<lambda>(name, requires_grad).
            (name, requires_grad \<and> True \<and>
                   (str_contains ''layer2'' name \<or> str_contains ''layer3'' name \<or>
                    str_contains ''layer4'' name)))
       (named_parameters (resnet_module 4 False))"
  using BackboneBase_init_freezes [of "resnet_module 4 False" True "[512, 1024, 2048]" "[1, 2, 3]"]
    resnet_freeze_run
  by simp

section \<open>Printing integers is injective\<close>

lemma digit_char_code: "d < 10 \<Longrightarrow> (of_char (digit_char d) :: nat) = 48 + d"
proof -
  assume "d < 10"
  then have "d \<in> {0, 1, 2, 3, 4, 5, 6, 7, 8, 9}" by auto
  then show ?thesis by (auto simp: digit_char_def)
qed

lemma digits_value_str_nat: "digits_value (str_nat n) = n"
proof (induction n rule: str_nat.induct)
  case (1 n)
  show ?case
  proof (cases "n < 10")
    case True
    then show ?thesis
      by (subst str_nat.simps) (simp add: digits_value_def digit_char_code)
  next
    case False
    have "digits_value (str_nat n) = 10 * digits_value (str_nat (n div 10)) + (of_char (digit_char (n mod 10)) - 48)"
      using False by (subst str_nat.simps) (simp add: digits_value_def)
    also have "\<dots> = 10 * (n div 10) + n mod 10"
      using 1 [OF False] by (simp add: digit_char_code)
    finally show ?thesis by simp
  qed
qed

lemma str_nat_inj: "str_nat m = str_nat n \<Longrightarrow> m = n"
  by (metis digits_value_str_nat)

lemma digit_char_not_minus: "d < 10 \<Longrightarrow> digit_char d \<noteq> CHR ''-''"
  using digit_char_code [of d] by auto

lemma str_nat_no_minus: "CHR ''-'' \<notin> set (str_nat n)"
proof (induction n rule: str_nat.induct)
  case (1 n)
  show ?case
  proof (cases "n < 10")
    case True
    then show ?thesis
      using digit_char_not_minus [of n] by (subst str_nat.simps) auto
  next
    case False
    then show ?thesis
      using 1 [OF False] digit_char_not_minus [of "n mod 10"]
      by (subst str_nat.simps) auto
  qed
qed

lemma str_nat_nonempty: "str_nat n \<noteq> []"
  by (subst str_nat.simps) simp

lemma str_int_inj: "str_int i = str_int j \<Longrightarrow> i = j"
proof -
  assume eq: "str_int i = str_int j"
  have hd_neg: "\<And>k. k < 0 \<Longrightarrow> hd (str_int k) = CHR ''-''"
    by (simp add: str_int_def)
  have hd_pos: "\<And>k. \<not> k < 0 \<Longrightarrow> hd (str_int k) \<noteq> CHR ''-''"
  proof -
    fix k :: int assume "\<not> k < 0"
    then have "str_int k = str_nat (nat k)" by (simp add: str_int_def)
    moreover have "hd (str_nat (nat k)) \<in> set (str_nat (nat k))"
      using str_nat_nonempty by simp
    ultimately show "hd (str_int k) \<noteq> CHR ''-''"
      using str_nat_no_minus [of "nat k"] by metis
  qed
  show "i = j"
  proof (cases "i < 0")
    case True
    then have "j < 0" using eq hd_neg hd_pos by metis
    with True eq have "nat (- i) = nat (- j)"
      by (simp add: str_int_def str_nat_inj)
    with True \<open>j < 0\<close> show ?thesis by simp
  next
    case False
    then have "\<not> j < 0" using eq hd_neg hd_pos by metis
    with False eq have "nat i = nat j"
      by (simp add: str_int_def str_nat_inj)
    with False \<open>\<not> j < 0\<close> show ?thesis by simp
  qed
qed

lemma stage_key_inj: "inj stage_key"
  by (rule injI) (simp add: stage_key_def str_int_inj)

section \<open>Ordered dictionaries and resampled masks\<close>

lemma set_update_subset: "set (AList.update k v al) \<subseteq> insert (k, v) (set al)"
  by (induction al) auto

lemma length_distinct_keys: "distinct (map fst al) \<Longrightarrow> length al = card (fst ` set al)"
  by (metis distinct_card length_map set_map)

lemma update_fresh: "k \<notin> fst ` set al \<Longrightarrow> AList.update k v al = al @ [(k, v)]"
  by (induction al) auto

lemma fst_set_zip: "fst ` set (zip xs ys) = set (take (length ys) xs)"
proof -
  have "fst ` set (zip xs ys) = set (map fst (zip xs ys))" by simp
  also have "\<dots> = set (take (min (length xs) (length ys)) xs)"
    by (simp only: map_fst_zip_take)
  also have "\<dots> = set (take (length ys) xs)"
    by (simp add: min_def)
  finally show ?thesis .
qed


lemma interpolate_shape:
  "interpolate t s = Inr r \<Longrightarrow> shape r = take 2 (shape t) @ s \<and> length (shape t) = length s + 2 \<and> dtype r = dtype t"
  by (auto simp: interpolate_def split: if_splits)

lemma index_0_shape: "index_0 t = Inr r \<Longrightarrow> shape r = tl (shape t) \<and> shape t \<noteq> [] \<and> dtype r = dtype t"
  by (auto simp: index_0_def split: list.splits if_splits)

lemma resampled_mask_shape:
  assumes "interpolate (float (index_None mt)) sz = Inr r"
  shows "\<exists>b. shape r = 1 # b # sz"
proof -
  from interpolate_shape [OF assms]
  have sr: "shape r = take 2 (shape (float (index_None mt))) @ sz"
    and "length (shape (float (index_None mt))) = length sz + 2" by simp_all
  then have "length (shape mt) = Suc (length sz)" by (simp add: float_def index_None_def to_dtype_def)
  then obtain b rest where "shape mt = b # rest" by (cases "shape mt") auto
  with sr show ?thesis by (simp add: float_def index_None_def to_dtype_def)
qed

lemma vit_mask_fits:
  assumes "interpolate (float (index_None mt)) [H, W] = Inr r" "index_0 r = Inr r0"
    and "shape feat = [b, C, H, W]"
  shows "mask_fits \<lparr>tensors = feat, mask = Some (to_dtype r0 torch_bool)\<rparr>"
proof -
  from resampled_mask_shape [OF assms(1)] obtain B where "shape r = 1 # B # [H, W]" by blast
  with index_0_shape [OF assms(2)] have "shape r0 = [B, H, W]" by simp
  with assms(3) show ?thesis
    by (simp add: mask_fits_def shape_last2_def to_dtype_def)
qed

lemma conv_mask_fits:
  assumes "interpolate (float (index_None mt)) (shape_last2 x) = Inr r"
    and "index_0 (to_dtype r torch_bool) = Inr mk"
  shows "mask_fits \<lparr>tensors = x, mask = Some mk\<rparr>"
proof -
  from resampled_mask_shape [OF assms(1)] obtain B where "shape r = 1 # B # shape_last2 x" by blast
  with index_0_shape [OF assms(2)] have "shape mk = B # shape_last2 x" "dtype mk = torch_bool"
    by (simp_all add: to_dtype_def)
  then show ?thesis by (simp add: mask_fits_def)
qed

section \<open>The loop of \<open>VitBackboneAdapter.forward\<close>\<close>

lemma vit_loop_result:
  assumes "VitBackboneAdapter_forward_loop m ps out0 = Inr out"
    and "distinct (map fst out0)" and "\<forall>(k, ft) \<in> set out0. mask_fits ft"
  shows "distinct (map fst out) \<and> fst ` set out = fst ` set out0 \<union> stage_key ` fst ` set ps \<and>
         (\<forall>(k, ft) \<in> set out. mask_fits ft)"
  using assms
proof (induction ps arbitrary: out0)
  case Nil
  then show ?case by simp
next
  case (Cons p ps)
  obtain idx feat where p: "p = (idx, feat)" by (cases p)
  from Cons.prems(1) p obtain b C H W mt r r0 where
    sh: "shape feat = [b, C, H, W]" and mt: "m = Some mt"
    and r: "interpolate (float (index_None mt)) [H, W] = Inr r" and r0: "index_0 r = Inr r0"
    and rest: "VitBackboneAdapter_forward_loop m ps
        (AList.update (''stage'' @ str_int idx) \<lparr>tensors = feat, mask = Some (to_dtype r0 torch_bool)\<rparr> out0) = Inr out"
    by (auto split: list.splits option.splits sum.splits)
  let ?o = "AList.update (''stage'' @ str_int idx) \<lparr>tensors = feat, mask = Some (to_dtype r0 torch_bool)\<rparr> out0"
  have d: "distinct (map fst ?o)" using Cons.prems(2) by (rule AList.distinct_update)
  have f: "\<forall>(k, ft) \<in> set ?o. mask_fits ft"
    using set_update_subset [of "''stage'' @ str_int idx" _ out0] Cons.prems(3)
      vit_mask_fits [OF r r0 sh] by fastforce
  from Cons.IH [OF rest d f] show ?case
    by (auto simp: p AList.dom_update stage_key_def)
qed



lemma vit_forward_count:
  assumes "VitBackboneAdapter_forward v tensor_list = Inr out"
  shows "length out = card (set (take (length (vit v (tensors tensor_list))) (out_indices v))) \<and>
         (\<forall>(k, ft) \<in> set out. mask_fits ft)"
proof -
  let ?ps = "zip (out_indices v) (vit v (tensors tensor_list))"
  from assms have out: "VitBackboneAdapter_forward_loop (mask tensor_list) ?ps [] = Inr out"
    by (simp add: VitBackboneAdapter_forward_def)
  from vit_loop_result [OF out] have dist: "distinct (map fst out)"
    and keys: "fst ` set out = stage_key ` fst ` set ?ps"
    and fits: "\<forall>(k, ft) \<in> set out. mask_fits ft" by simp_all
  have "length out = card (fst ` set out)"
    using dist by (rule length_distinct_keys)
  also have "\<dots> = card (fst ` set ?ps)"
    unfolding keys using stage_key_inj by (simp add: card_image inj_on_def inj_def)
  finally have "length out = card (set (take (length (vit v (tensors tensor_list))) (out_indices v)))"
    by (simp only: fst_set_zip)
  with fits show ?thesis by blast
qed





section \<open>\<open>Joiner.forward\<close>\<close>

lemma Joiner_forward_loop_maps:
  assumes "\<forall>x \<in> set (map snd xs). \<exists>q. pe x = Inr q"
  shows "Joiner_forward_loop pe xs out pos =
           Inr (out @ map snd xs,
                pos @ map (\<lambda>x. to_dtype (projr (pe x)) (dtype (tensors x))) (map snd xs))"
  using assms
proof (induction xs arbitrary: out pos)
  case Nil
  then show ?case by simp
next
  case (Cons p xs)
  obtain name x where p: "p = (name, x)" by (cases p)
  with Cons.prems obtain q where q: "pe x = Inr q" by auto
  from Cons.prems have "\<forall>x \<in> set (map snd xs). \<exists>q. pe x = Inr q" by simp
  from Cons.IH [OF this] show ?case by (simp add: p q)
qed

text \<open>
  Claim C4: for every valid input, that is, whenever the backbone returns its ordered
  mapping and the position-encoding generator returns on each of its FeatureMaps,
  \<open>Joiner.forward\<close> returns two lists of equal length in matching order: the FeatureMaps
  in the backbone's order, and for each the generator's result on that FeatureMap, cast to
  the feature tensor's element type.
\<close>

theorem Joiner_forward_parallel_lists:
  assumes "backbone_forward (Joiner_backbone self) tensor_list = Inr xs"
    and "\<forall>x \<in> set (map snd xs). \<exists>q. Joiner_position_embedding self x = Inr q"
  shows "\<exists>out pos. Joiner_forward self tensor_list = Inr (out, pos) \<and>
           out = map snd xs \<and> length pos = length out \<and>
           (\<forall>i < length out. \<exists>q. Joiner_position_embedding self (out ! i) = Inr q \<and>
                                 pos ! i = to_dtype q (dtype (tensors (out ! i))))"
proof -
  let ?pe = "Joiner_position_embedding self"
  let ?pos = "map (\<lambda>x. to_dtype (projr (?pe x)) (dtype (tensors x))) (map snd xs)"
  have fw: "Joiner_forward self tensor_list = Inr (map snd xs, ?pos)"
    using Joiner_forward_loop_maps [OF assms(2), of "[]" "[]"]
    by (simp add: Joiner_forward_def assms(1))
  have "\<exists>q. ?pe (map snd xs ! i) = Inr q \<and> ?pos ! i = to_dtype q (dtype (tensors (map snd xs ! i)))"
    if "i < length (map snd xs)" for i
  proof -
    from that have "map snd xs ! i \<in> set (map snd xs)" by (rule nth_mem)
    with assms(2) obtain q where "?pe (map snd xs ! i) = Inr q" by blast
    with that show ?thesis by simp
  qed
  with fw show ?thesis by simp
qed

lemma demo_vit_joiner_run:
  "backbone_forward (Joiner_backbone demo_vit_joiner) image_batch =
     Inr [(''stage9'', \<lparr>tensors = \<lparr>shape = [2, 320, 200, 300], dtype = torch_float32\<rparr>,
                         mask = Some \<lparr>shape = [2, 200, 300], dtype = torch_bool\<rparr>\<rparr>),
          (''stage16'', \<lparr>tensors = \<lparr>shape = [2, 640, 100, 150], dtype = torch_float32\<rparr>,
                          mask = Some \<lparr>shape = [2, 100, 150], dtype = torch_bool\<rparr>\<rparr>),
          (''stage22'', \<lparr>tensors = \<lparr>shape = [2, 1280, 50, 75], dtype = torch_float32\<rparr>,
                          mask = Some \<lparr>shape = [2, 50, 75], dtype = torch_bool\<rparr>\<rparr>),
          (''stage29'', \<lparr>tensors = \<lparr>shape = [2, 1280, 25, 37], dtype = torch_float32\<rparr>,
                          mask = Some \<lparr>shape = [2, 25, 37], dtype = torch_bool\<rparr>\<rparr>)]"
  by (rule sum_is_value; code_simp)

lemma demo_vit_joiner_forward_run:
  "Joiner_forward demo_vit_joiner image_batch =
     Inr ([\<lparr>tensors = \<lparr>shape = [2, 320, 200, 300], dtype = torch_float32\<rparr>,
             mask = Some \<lparr>shape = [2, 200, 300], dtype = torch_bool\<rparr>\<rparr>,
           \<lparr>tensors = \<lparr>shape = [2, 640, 100, 150], dtype = torch_float32\<rparr>,
             mask = Some \<lparr>shape = [2, 100, 150], dtype = torch_bool\<rparr>\<rparr>,
           \<lparr>tensors = \<lparr>shape = [2, 1280, 50, 75], dtype = torch_float32\<rparr>,
             mask = Some \<lparr>shape = [2, 50, 75], dtype = torch_bool\<rparr>\<rparr>,
           \<lparr>tensors = \<lparr>shape = [2, 1280, 25, 37], dtype = torch_float32\<rparr>,
             mask = Some \<lparr>shape = [2, 25, 37], dtype = torch_bool\<rparr>\<rparr>],
          [\<lparr>shape = [2, 256, 200, 300], dtype = torch_float32\<rparr>,
           \<lparr>shape = [2, 256, 100, 150], dtype = torch_float32\<rparr>,
           \<lparr>shape = [2, 256, 50, 75], dtype = torch_float32\<rparr>,
           \<lparr>shape = [2, 256, 25, 37], dtype = torch_float32\<rparr>])"
  by (rule sum_is_value; code_simp)

theorem Joiner_forward_parallel_lists_witness:
  "Joiner_forward demo_vit_joiner image_batch =
     Inr ([\<lparr>tensors = \<lparr>shape = [2, 320, 200, 300], dtype = torch_float32\<rparr>,
             mask = Some \<lparr>shape = [2, 200, 300], dtype = torch_bool\<rparr>\<rparr>,
           \<lparr>tensors = \<lparr>shape = [2, 640, 100, 150], dtype = torch_float32\<rparr>,
             mask = Some \<lparr>shape = [2, 100, 150], dtype = torch_bool\<rparr>\<rparr>,
           \<lparr>tensors = \<lparr>shape = [2, 1280, 50, 75], dtype = torch_float32\<rparr>,
             mask = Some \<lparr>shape = [2, 50, 75], dtype = torch_bool\<rparr>\<rparr>,
           \<lparr>tensors = \<lparr>shape = [2, 1280, 25, 37], dtype = torch_float32\<rparr>,
             mask = Some \<lparr>shape = [2, 25, 37], dtype = torch_bool\<rparr>\<rparr>],
          [\<lparr>shape = [2, 256, 200, 300], dtype = torch_float32\<rparr>,
           \<lparr>shape = [2, 256, 100, 150], dtype = torch_float32\<rparr>,
           \<lparr>shape = [2, 256, 50, 75], dtype = torch_float32\<rparr>,
           \<lparr>shape = [2, 256, 25, 37], dtype = torch_float32\<rparr>]) \<and>
   (\<exists>out pos. Joiner_forward demo_vit_joiner image_batch = Inr (out, pos) \<and> length pos = length out)"
proof -
  have pe: "\<forall>x \<in> set (map snd
      [(''stage9'', \<lparr>tensors = \<lparr>shape = [2, 320, 200, 300], dtype = torch_float32\<rparr>,
                         mask = Some \<lparr>shape = [2, 200, 300], dtype = torch_bool\<rparr>\<rparr>),
          (''stage16'', \<lparr>tensors = \<lparr>shape = [2, 640, 100, 150], dtype = torch_float32\<rparr>,
                          mask = Some \<lparr>shape = [2, 100, 150], dtype = torch_bool\<rparr>\<rparr>),
          (''stage22'', \<lparr>tensors = \<lparr>shape = [2, 1280, 50, 75], dtype = torch_float32\<rparr>,
                          mask = Some \<lparr>shape = [2, 50, 75], dtype = torch_bool\<rparr>\<rparr>),
          (''stage29'', \<lparr>tensors = \<lparr>shape = [2, 1280, 25, 37], dtype = torch_float32\<rparr>,
                          mask = Some \<lparr>shape = [2, 25, 37], dtype = torch_bool\<rparr>\<rparr>)]).
      \<exists>q. Joiner_position_embedding demo_vit_joiner x = Inr q"
    by (simp add: demo_vit_joiner_def sine_position_embedding_def)
  from Joiner_forward_parallel_lists [OF demo_vit_joiner_run pe]
  have "\<exists>out pos. Joiner_forward demo_vit_joiner image_batch = Inr (out, pos) \<and> length pos = length out"
    by blast
  with demo_vit_joiner_forward_run show ?thesis by blast
qed

section \<open>The mask assertion of \<open>BackboneBase.forward\<close>\<close>









section \<open>The convolutional path on the legal stage selections\<close>

lemma make_return_layers_legal:
  "make_return_layers [0, 1, 2, 3] = [(''layer1'', ''0''), (''layer2'', ''1''), (''layer3'', ''2''), (''layer4'', ''3'')]"
  "make_return_layers [1, 2, 3] = [(''layer2'', ''1''), (''layer3'', ''2''), (''layer4'', ''3'')]"
  "make_return_layers [3] = [(''layer4'', ''3'')]"
  by code_simp+

lemma resnet_children_explicit:
  assumes "map fst cs = resnet_child_names"
  shows "\<exists>f1 f2 f3 f4 f5 f6 f7 f8 f9 f10.
           cs = [(''conv1'', f1), (''bn1'', f2), (''relu'', f3), (''maxpool'', f4), (''layer1'', f5),
                 (''layer2'', f6), (''layer3'', f7), (''layer4'', f8), (''avgpool'', f9), (''fc'', f10)]"
  using assms unfolding resnet_child_names_def
  by (auto simp: map_eq_Cons_conv)

lemma bb_loop_result:
  assumes "BackboneBase_forward_loop m xs out0 = Inr out"
    and "distinct (map fst out0 @ map fst xs)"
    and "\<forall>(k, ft) \<in> set out0. mask_fits ft"
  shows "map fst out = map fst out0 @ map fst xs \<and> (\<forall>(k, ft) \<in> set out. mask_fits ft)"
  using assms
proof (induction xs arbitrary: out0)
  case Nil
  then show ?case by simp
next
  case (Cons p xs)
  obtain name x where p: "p = (name, x)" by (cases p)
  from Cons.prems(1) p obtain mt r mk where mt: "m = Some mt"
    and r: "interpolate (float (index_None mt)) (shape_last2 x) = Inr r"
    and mk: "index_0 (to_dtype r torch_bool) = Inr mk"
    and rest: "BackboneBase_forward_loop m xs (AList.update name \<lparr>tensors = x, mask = Some mk\<rparr> out0) = Inr out"
    by (auto split: option.splits sum.splits)
  let ?ft = "\<lparr>tensors = x, mask = Some mk\<rparr>"
  from Cons.prems(2) p have fresh: "name \<notin> fst ` set out0" by auto
  have upd: "AList.update name ?ft out0 = out0 @ [(name, ?ft)]"
    using fresh by (rule update_fresh)
  have d: "distinct (map fst (out0 @ [(name, ?ft)]) @ map fst xs)"
    using Cons.prems(2) p by auto
  have f: "\<forall>(k, ft) \<in> set (out0 @ [(name, ?ft)]). mask_fits ft"
    using Cons.prems(3) conv_mask_fits [OF r mk] by auto
  from Cons.IH [OF rest [unfolded upd] d f] show ?case
    by (simp add: p)
qed

lemma legal_selection_cases:
  "sel \<in> set [[0, 1, 2, 3], [1, 2, 3], [3]] \<Longrightarrow> sel = [0, 1, 2, 3] \<or> sel = [1, 2, 3] \<or> sel = [3::int]"
  by simp

lemma resnet_getter:
  assumes "map fst (named_children m) = resnet_child_names"
    and "sel \<in> set [[0, 1, 2, 3], [1, 2, 3], [3]]"
  shows "\<exists>g. IntermediateLayerGetter_init m (make_return_layers sel) = Inr g \<and>
             (\<forall>x. map fst (IntermediateLayerGetter_forward g x) = map str_int sel)"
proof -
  from resnet_children_explicit [OF assms(1)] obtain f1 f2 f3 f4 f5 f6 f7 f8 f9 f10 where
    cs: "named_children m =
           [(''conv1'', f1), (''bn1'', f2), (''relu'', f3), (''maxpool'', f4), (''layer1'', f5),
            (''layer2'', f6), (''layer3'', f7), (''layer4'', f8), (''avgpool'', f9), (''fc'', f10)]"
    by blast
  have s: "str_int 0 = ''0''" "str_int 1 = ''1''" "str_int 2 = ''2''" "str_int 3 = ''3''"
    by code_simp+
  from legal_selection_cases [OF assms(2)] show ?thesis
  proof (elim disjE)
    assume "sel = [0, 1, 2, 3]"
    then show ?thesis
      by (simp add: s make_return_layers_legal IntermediateLayerGetter_init_def cs
            IntermediateLayerGetter_forward_def)
  next
    assume "sel = [1, 2, 3]"
    then show ?thesis
      by (simp add: s make_return_layers_legal IntermediateLayerGetter_init_def cs
            IntermediateLayerGetter_forward_def)
  next
    assume "sel = [3]"
    then show ?thesis
      by (simp add: s make_return_layers_legal IntermediateLayerGetter_init_def cs
            IntermediateLayerGetter_forward_def)
  qed
qed

lemma str_int_distinct: "distinct sel \<Longrightarrow> distinct (map str_int sel)"
  by (simp add: distinct_map inj_on_def str_int_inj)

lemma Backbone_init_legal:
  assumes "name \<in> set [''resnet50'', ''resnet101'']"
    and "models name [False, False, dil] = Inr m"
    and "map fst (named_children m) = resnet_child_names"
    and "sel \<in> set [[0, 1, 2, 3], [1, 2, 3], [3]]"
  shows "\<exists>g. Backbone_init models name tb dil sel =
               ([called_torchvision_models name],
                Inr \<lparr>body = g, num_channels = drop (4 - length sel) [256, 512, 1024, 2048]\<rparr>) \<and>
             (\<forall>x. map fst (IntermediateLayerGetter_forward g x) = map str_int sel)"
proof -
  from resnet_getter [OF assms(3,4)] obtain g where
    g: "IntermediateLayerGetter_init m (make_return_layers sel) = Inr g"
    and k: "\<forall>x. map fst (IntermediateLayerGetter_forward g x) = map str_int sel" by blast
  from assms(1) have n: "name \<notin> set [''resnet18'', ''resnet34'']"
    "name \<in> set [''resnet18'', ''resnet34'', ''resnet50'', ''resnet101'']" by auto
  have "Backbone_init models name tb dil sel =
      ([called_torchvision_models name],
       Inr \<lparr>body = g, num_channels = drop (4 - length sel) [256, 512, 1024, 2048]\<rparr>)"
    unfolding Backbone_init_def
    by (simp only: n assms(2) assms(4) if_True if_False not_True_eq_False not_False_eq_True
          sum.case BackboneBase_init_def g snd_conv)
  with k show ?thesis by blast
qed

lemma legal_selection_distinct:
  "sel \<in> set [[0, 1, 2, 3], [1, 2, 3], [3::int]] \<Longrightarrow> distinct sel"
  by auto

text \<open>
  Claim C3 says that on both wrappers the number of returned FeatureMaps equals the number
  of selected stages. On the transformer path it does not when the encoder returns fewer
  features than there are indices: for the legal selection \<open>[1, 2, 3]\<close> and an encoder
  returning two features, two FeatureMaps come back.
\<close>

theorem vit_fewer_features_counterexample:
  "VitBackboneAdapter_forward \<lparr>vit = two_copies, out_indices = [1, 2, 3], patch_size = (16, 16)\<rparr> image_batch =
     Inr [(''stage1'', \<lparr>tensors = \<lparr>shape = [2, 3, 800, 1200], dtype = torch_float32\<rparr>,
                         mask = Some \<lparr>shape = [2, 800, 1200], dtype = torch_bool\<rparr>\<rparr>),
          (''stage2'', \<lparr>tensors = \<lparr>shape = [2, 3, 800, 1200], dtype = torch_float32\<rparr>,
                         mask = Some \<lparr>shape = [2, 800, 1200], dtype = torch_bool\<rparr>\<rparr>)] \<and>
   length (out_indices \<lparr>vit = two_copies, out_indices = [1, 2, 3], patch_size = (16, 16)\<rparr>) = 3"
  by (rule conjI, rule sum_is_value; code_simp)

text \<open>
  Claim C3, amended: on the convolutional path, for every legal StageSelection over a
  torchvision residual network, every forward call that returns gives as many FeatureMaps
  as stages were selected, keyed by the selected indices in order. On the transformer path,
  every forward call that returns gives one FeatureMap per distinct index among those
  paired with a feature; that is the number of selected stages when the indices are
  pairwise distinct (as in every legal selection) and the encoder returns at least as many
  features. On both paths each returned FeatureMap's mask is a boolean tensor whose spatial
  shape is that of its feature tensor.
\<close>

theorem forward_counts_and_masks:
  "(name \<in> set [''resnet50'', ''resnet101''] \<and> sel \<in> set [[0, 1, 2, 3], [1, 2, 3], [3]] \<and>
    models name [False, False, dil] = Inr m \<and> map fst (named_children m) = resnet_child_names \<longrightarrow>
      (\<exists>b. snd (Backbone_init models name tb dil sel) = Inr b \<and>
         (\<forall>out. BackboneBase_forward b tensor_list = Inr out \<longrightarrow>
            length out = length sel \<and> map fst out = map str_int sel \<and>
            (\<forall>(k, ft) \<in> set out. mask_fits ft)))) \<and>
   (VitBackboneAdapter_forward v tensor_list = Inr out' \<longrightarrow>
      (\<forall>(k, ft) \<in> set out'. mask_fits ft) \<and>
      length out' = card (set (take (length (vit v (tensors tensor_list))) (out_indices v))) \<and>
      (distinct (out_indices v) \<and> length (out_indices v) \<le> length (vit v (tensors tensor_list)) \<longrightarrow>
         length out' = length (out_indices v)))"
proof (intro conjI impI)
  assume a: "name \<in> set [''resnet50'', ''resnet101''] \<and> sel \<in> set [[0, 1, 2, 3], [1, 2, 3], [3]] \<and>
    models name [False, False, dil] = Inr m \<and> map fst (named_children m) = resnet_child_names"
  then have a1: "name \<in> set [''resnet50'', ''resnet101'']"
    and a2: "sel \<in> set [[0, 1, 2, 3], [1, 2, 3], [3]]"
    and a3: "models name [False, False, dil] = Inr m"
    and a4: "map fst (named_children m) = resnet_child_names" by blast+
  from Backbone_init_legal [where models = models and tb = tb, OF a1 a3 a4 a2] obtain g where
    b: "snd (Backbone_init models name tb dil sel) =
          Inr \<lparr>body = g, num_channels = drop (4 - length sel) [256, 512, 1024, 2048]\<rparr>"
    and k: "\<forall>x. map fst (IntermediateLayerGetter_forward g x) = map str_int sel" by force
  let ?b = "\<lparr>body = g, num_channels = drop (4 - length sel) [256, 512, 1024, 2048]\<rparr>"
  have "length out = length sel \<and> map fst out = map str_int sel \<and> (\<forall>(k, ft) \<in> set out. mask_fits ft)"
    if fw: "BackboneBase_forward ?b tensor_list = Inr out" for out
  proof -
    let ?xs = "IntermediateLayerGetter_forward g (tensors tensor_list)"
    from fw have lp: "BackboneBase_forward_loop (mask tensor_list) ?xs [] = Inr out"
      by (simp add: BackboneBase_forward_def)
    have "distinct (map fst ?xs)"
      using k str_int_distinct [OF legal_selection_distinct [OF a2]] by simp
    then have d: "distinct (map fst [] @ map fst ?xs)" by simp
    from bb_loop_result [OF lp d] have ks: "map fst out = map fst ?xs"
      and fits: "\<forall>(k, ft) \<in> set out. mask_fits ft" by simp_all
    from ks k have ks': "map fst out = map str_int sel" by simp
    then have "length (map fst out) = length (map str_int sel)" by simp
    then have "length out = length sel" by simp
    with ks' fits show ?thesis by blast
  qed
  with b show "\<exists>b. snd (Backbone_init models name tb dil sel) = Inr b \<and>
         (\<forall>out. BackboneBase_forward b tensor_list = Inr out \<longrightarrow>
            length out = length sel \<and> map fst out = map str_int sel \<and>
            (\<forall>(k, ft) \<in> set out. mask_fits ft))" by blast
next
  assume "VitBackboneAdapter_forward v tensor_list = Inr out'"
  from vit_forward_count [OF this] show "\<forall>(k, ft) \<in> set out'. mask_fits ft" by blast
next
  assume "VitBackboneAdapter_forward v tensor_list = Inr out'"
  from vit_forward_count [OF this]
  show "length out' = card (set (take (length (vit v (tensors tensor_list))) (out_indices v)))"
    by blast
next
  assume fw: "VitBackboneAdapter_forward v tensor_list = Inr out'"
    and d: "distinct (out_indices v) \<and> length (out_indices v) \<le> length (vit v (tensors tensor_list))"
  from vit_forward_count [OF fw]
  have "length out' = card (set (take (length (vit v (tensors tensor_list))) (out_indices v)))"
    by blast
  with d show "length out' = length (out_indices v)"
    by (simp add: distinct_card)
qed

lemma resnet50_forward_run:
  "BackboneBase_forward (projr (snd (Backbone_init resnet_models ''resnet50'' True False [1, 2, 3]))) image_batch =
     Inr [(''1'', \<lparr>tensors = \<lparr>shape = [2, 512, 100, 150], dtype = torch_float32\<rparr>,
                   mask = Some \<lparr>shape = [2, 100, 150], dtype = torch_bool\<rparr>\<rparr>),
          (''2'', \<lparr>tensors = \<lparr>shape = [2, 1024, 50, 75], dtype = torch_float32\<rparr>,
                   mask = Some \<lparr>shape = [2, 50, 75], dtype = torch_bool\<rparr>\<rparr>),
          (''3'', \<lparr>tensors = \<lparr>shape = [2, 2048, 25, 38], dtype = torch_float32\<rparr>,
                   mask = Some \<lparr>shape = [2, 25, 38], dtype = torch_bool\<rparr>\<rparr>)]"
  by (rule sum_is_value; code_simp)

lemma resnet_models_children:
  "resnet_models ''resnet50'' [False, False, False] = Inr (resnet_module 4 False)"
  "map fst (named_children (resnet_module 4 False)) = resnet_child_names"
  by (simp_all add: resnet_models_def resnet_module_def resnet_child_names_def)

theorem forward_counts_and_masks_witness:
  "BackboneBase_forward (projr (snd (Backbone_init resnet_models ''resnet50'' True False [1, 2, 3]))) image_batch =
     Inr [(''1'', \<lparr>tensors = \<lparr>shape = [2, 512, 100, 150], dtype = torch_float32\<rparr>,
                   mask = Some \<lparr>shape = [2, 100, 150], dtype = torch_bool\<rparr>\<rparr>),
          (''2'', \<lparr>tensors = \<lparr>shape = [2, 1024, 50, 75], dtype = torch_float32\<rparr>,
                   mask = Some \<lparr>shape = [2, 50, 75], dtype = torch_bool\<rparr>\<rparr>),
          (''3'', \<lparr>tensors = \<lparr>shape = [2, 2048, 25, 38], dtype = torch_float32\<rparr>,
                   mask = Some \<lparr>shape = [2, 25, 38], dtype = torch_bool\<rparr>\<rparr>)] \<and>
   (\<exists>b. snd (Backbone_init resnet_models ''resnet50'' True False [1, 2, 3]) = Inr b) \<and>
   backbone_forward (Joiner_backbone demo_vit_joiner) image_batch =
     Inr [(''stage9'', \<lparr>tensors = \<lparr>shape = [2, 320, 200, 300], dtype = torch_float32\<rparr>,
                         mask = Some \<lparr>shape = [2, 200, 300], dtype = torch_bool\<rparr>\<rparr>),
          (''stage16'', \<lparr>tensors = \<lparr>shape = [2, 640, 100, 150], dtype = torch_float32\<rparr>,
                          mask = Some \<lparr>shape = [2, 100, 150], dtype = torch_bool\<rparr>\<rparr>),
          (''stage22'', \<lparr>tensors = \<lparr>shape = [2, 1280, 50, 75], dtype = torch_float32\<rparr>,
                          mask = Some \<lparr>shape = [2, 50, 75], dtype = torch_bool\<rparr>\<rparr>),
          (''stage29'', \<lparr>tensors = \<lparr>shape = [2, 1280, 25, 37], dtype = torch_float32\<rparr>,
                          mask = Some \<lparr>shape = [2, 25, 37], dtype = torch_bool\<rparr>\<rparr>)]"
proof -
  have h: "''resnet50'' \<in> set [''resnet50'', ''resnet101''] \<and>
      [1, 2, 3] \<in> set [[0, 1, 2, 3], [1, 2, 3], [3::int]] \<and>
      resnet_models ''resnet50'' [False, False, False] = Inr (resnet_module 4 False) \<and>
      map fst (named_children (resnet_module 4 False)) = resnet_child_names"
    using resnet_models_children by simp
  from forward_counts_and_masks [of "''resnet50''" "[1, 2, 3]" resnet_models False "resnet_module 4 False" True image_batch]
    h have "\<exists>b. snd (Backbone_init resnet_models ''resnet50'' True False [1, 2, 3]) = Inr b"
    by blast
  with resnet50_forward_run demo_vit_joiner_run show ?thesis by blast
qed





end
